theory Spec2Isabelle
  imports Main
begin

section \<open>The DevOps command-line tool \<^verbatim>\<open>dev-cli.py\<close>\<close>

text \<open>
  The tool talks to three external programs (\<^verbatim>\<open>aws\<close>, \<^verbatim>\<open>kubectl\<close>, \<^verbatim>\<open>helm\<close>) and to the
  terminal. A run is modelled as a pure function of the answers the outside gives (the
  \<open>world\<close> record below) to the list of things the run does, in order (its trace), and
  the way it ends.

  The answers of \<^verbatim>\<open>kubectl\<close> and \<^verbatim>\<open>helm\<close> that parse as JSON are taken to have the shape
  these commands print: an object with a list of pods under \<^verbatim>\<open>items\<close>, a list of releases
  with a name and a revision, a list of history entries with an integer revision, a
  description and a date. An interrupt is modelled where the code waits for the terminal or
  for the followed log, the two places where it catches one. \<^verbatim>\<open>main\<close> and its argument
  parser are not modelled: the two operations are entered with the parsed arguments.
\<close>

subsection \<open>Observable events\<close>

datatype level = INFO | SUCCESS | WARNING | ERROR

text \<open>
  \<open>Log\<close> is a call of \<^verbatim>\<open>self.log(message, level)\<close> (the timestamp and the colour of the
  printed line are left out), \<open>Exec\<close> a call of \<^verbatim>\<open>subprocess.run\<close> with its command and whether
  the process ran and exited with status 0, \<open>Input\<close> a call of \<^verbatim>\<open>input(prompt)\<close>, and
  \<open>Print\<close> a bare \<^verbatim>\<open>print\<close>.
\<close>

datatype event =
    Log level string
  | Exec "string list" bool
  | Input string
  | Print string

datatype exn = EOFError | FileNotFoundError

datatype outcome = Returned | Raised exn

subsection \<open>Answers of the outside world\<close>

text \<open>
  What \<^verbatim>\<open>subprocess.run(command, check=True)\<close> does: it completes (the payload is what
  \<^verbatim>\<open>result.stdout.strip()\<close> holds), raises \<^verbatim>\<open>CalledProcessError\<close> (with \<^verbatim>\<open>str(e)\<close>,
  \<^verbatim>\<open>e.stdout\<close>, \<^verbatim>\<open>e.stderr\<close>) or raises \<^verbatim>\<open>FileNotFoundError\<close>.
\<close>

datatype 'a proc_result =
    Completed 'a
  | Called_process_error string string string
  | File_not_found

text \<open>
  The stripped standard output of a command that prints JSON, by what the code can see of
  it: the empty string (falsy, so \<^verbatim>\<open>json.loads\<close> is never called on it), a non-empty text
  on which \<^verbatim>\<open>json.loads\<close> raises \<^verbatim>\<open>JSONDecodeError\<close>, or a non-empty text that parses to
  a document of the shape the command prints.
\<close>

datatype 'd json_text = Blank | Garbled | Parsed 'd

record pod =
  pod_name :: string
  pod_phase :: string

text \<open>The object printed by \<^verbatim>\<open>kubectl get pods -o json\<close>; \<open>items\<close> is \<open>None\<close> when the key is absent.\<close>

record pod_list =
  items :: "pod list option"

record release =
  rel_name :: string
  rel_revision :: int

record revision_record =
  revision :: int
  description :: string
  updated :: string

datatype answer = Line string | Keyboard_interrupt | Eof

text \<open>What the unchecked \<^verbatim>\<open>subprocess.run(command)\<close> of the follow mode does.\<close>

datatype stream_result = Stream_exited bool | Stream_interrupted | Stream_not_found

text \<open>
  One field for each external call a run can make (each is made at most once in a run).
  \<open>int_of\<close> is Python's builtin \<^verbatim>\<open>int\<close> on a typed line, \<open>None\<close> where it raises
  \<^verbatim>\<open>ValueError\<close>.
\<close>

record world =
  kubeconfig_resp :: "unit proc_result"
  pods_resp :: "pod_list json_text proc_result"
  releases_resp :: "release list json_text proc_result"
  history_resp :: "revision_record list json_text proc_result"
  rollback_resp :: "unit proc_result"
  rollout_resp :: "unit proc_result"
  logs_resp :: "string proc_result"
  follow_resp :: stream_result
  typed :: answer
  int_of :: "string \<Rightarrow> int option"

subsection \<open>Strings\<close>

text \<open>
  \<^verbatim>\<open>sep.join(xs)\<close>, \<^verbatim>\<open>str\<close> of an integer and of a list of integers, and \<^verbatim>\<open>s.lower()\<close>.
  \<open>lower\<close> maps the letters A to Z only; no other character has the lower case \<^verbatim>\<open>y\<close>,
  so the test \<^verbatim>\<open>response.lower() != 'y'\<close> comes out as in Python for every line.
\<close>

fun join :: "string \<Rightarrow> string list \<Rightarrow> string" where
  "join sep [] = []"
| "join sep [x] = x"
| "join sep (x # y # ys) = x @ sep @ join sep (y # ys)"

fun digits :: "nat \<Rightarrow> string" where
  "digits n = (if n < 10 then [''0123456789'' ! n]
               else digits (n div 10) @ [''0123456789'' ! (n mod 10)])"

declare digits.simps [simp del]

definition str_int :: "int \<Rightarrow> string" where
  "str_int i = (if i < 0 then CHR ''-'' # digits (nat (- i)) else digits (nat i))"

definition str_int_list :: "int list \<Rightarrow> string" where
  "str_int_list xs = ''['' @ join '', '' (map str_int xs) @ '']''"

definition lower_char :: "char \<Rightarrow> char" where
  "lower_char c =
     (let n = (of_char c :: nat) in if 65 \<le> n \<and> n \<le> 90 then char_of (n + 32) else c)"

definition lower :: "string \<Rightarrow> string" where
  "lower s = map lower_char s"

text \<open>\<^verbatim>\<open>repr\<close> of a string without quotes or escapes in it, and of a list of such strings.\<close>

definition quoted :: "string \<Rightarrow> string" where
  "quoted s = CHR 0x27 # s @ [CHR 0x27]"

definition str_str_list :: "string list \<Rightarrow> string" where
  "str_str_list xs = ''['' @ join '', '' (map quoted xs) @ '']''"

definition YELLOW :: string where "YELLOW = CHR 0x1B # ''[93m''"
definition CYAN :: string where "CYAN = CHR 0x1B # ''[96m''"
definition RESET :: string where "RESET = CHR 0x1B # ''[0m''"

subsection \<open>The class \<^verbatim>\<open>DevOpsCLI\<close>\<close>

definition app_name :: string where "app_name = ''sample-app''"
definition valid_environments :: "string list" where
  "valid_environments = [''dev'', ''stage'', ''prod'']"
definition cluster_prefix :: string where "cluster_prefix = ''demo-eks''"
definition region :: string where "region = ''us-west-2''"

text \<open>
  \<^verbatim>\<open>run_command\<close>; \<open>r\<close> is what the process does. Without \<^verbatim>\<open>capture_output\<close> the function
  returns \<^verbatim>\<open>None\<close> on success as well as on failure. Every call site passes a non-empty
  literal list, so \<^verbatim>\<open>command[0]\<close> exists.
\<close>

definition run_command :: "'a proc_result \<Rightarrow> string list \<Rightarrow> bool \<Rightarrow> event list \<times> 'a option" where
  "run_command r command capture_output =
     (case r of
        Completed out \<Rightarrow>
          ([Log INFO (''Executing: '' @ join '' '' command), Exec command True],
           if capture_output then Some out else None)
      | Called_process_error e out err \<Rightarrow>
          ([Log INFO (''Executing: '' @ join '' '' command), Exec command False,
            Log ERROR (''Command failed: '' @ e)]
           @ (if capture_output \<and> out \<noteq> [] then [Log ERROR (''Output: '' @ out)] else [])
           @ (if capture_output \<and> err \<noteq> [] then [Log ERROR (''Error: '' @ err)] else []),
           None)
      | File_not_found \<Rightarrow>
          ([Log INFO (''Executing: '' @ join '' '' command), Exec command False,
            Log ERROR (''Command not found: '' @ (case command of [] \<Rightarrow> [] | c # _ \<Rightarrow> c))],
           None))"

definition validate_environment :: "string \<Rightarrow> event list \<times> bool" where
  "validate_environment environment =
     (if environment \<notin> set valid_environments
      then ([Log ERROR (''Invalid environment: '' @ environment
                        @ ''. Valid options: '' @ str_str_list valid_environments)], False)
      else ([], True))"

definition update_kubeconfig :: "world \<Rightarrow> string \<Rightarrow> event list \<times> bool" where
  "update_kubeconfig w environment =
     (let cluster_name = cluster_prefix @ ''-'' @ environment;
          command = [''aws'', ''eks'', ''update-kubeconfig'',
                     ''--region'', region, ''--name'', cluster_name];
          (tr, out) = run_command (kubeconfig_resp w) command False
      in (tr, out \<noteq> None))"

definition get_pods :: "world \<Rightarrow> string \<Rightarrow> string option \<Rightarrow> event list \<times> pod list option" where
  "get_pods w environment namespace =
     (let namespace = (case namespace of None \<Rightarrow> environment | Some n \<Rightarrow> n);
          command = [''kubectl'', ''get'', ''pods'', ''-n'', namespace,
                     ''-l'', ''app.kubernetes.io/name='' @ app_name, ''-o'', ''json''];
          (tr, output) = run_command (pods_resp w) command True
      in case output of
           Some (Parsed data) \<Rightarrow> (tr, Some (case items data of None \<Rightarrow> [] | Some ps \<Rightarrow> ps))
         | Some Garbled \<Rightarrow> (tr @ [Log ERROR ''Failed to parse pod information''], None)
         | Some Blank \<Rightarrow> (tr, None)
         | None \<Rightarrow> (tr, None))"

definition get_helm_releases ::
  "world \<Rightarrow> string \<Rightarrow> string option \<Rightarrow> event list \<times> release list option" where
  "get_helm_releases w environment namespace =
     (let namespace = (case namespace of None \<Rightarrow> environment | Some n \<Rightarrow> n);
          command = [''helm'', ''list'', ''-n'', namespace, ''-o'', ''json''];
          (tr, output) = run_command (releases_resp w) command True
      in case output of
           Some (Parsed data) \<Rightarrow> (tr, Some data)
         | Some Garbled \<Rightarrow> (tr @ [Log ERROR ''Failed to parse Helm releases''], None)
         | Some Blank \<Rightarrow> (tr, None)
         | None \<Rightarrow> (tr, None))"

definition get_helm_history ::
  "world \<Rightarrow> string \<Rightarrow> string option \<Rightarrow> event list \<times> revision_record list option" where
  "get_helm_history w environment namespace =
     (let namespace = (case namespace of None \<Rightarrow> environment | Some n \<Rightarrow> n);
          command = [''helm'', ''history'', app_name, ''-n'', namespace, ''-o'', ''json''];
          (tr, output) = run_command (history_resp w) command True
      in case output of
           Some (Parsed data) \<Rightarrow> (tr, Some data)
         | Some Garbled \<Rightarrow> (tr @ [Log ERROR ''Failed to parse Helm history''], None)
         | Some Blank \<Rightarrow> (tr, None)
         | None \<Rightarrow> (tr, None))"

subsection \<open>\<^verbatim>\<open>rollback_release\<close>: choosing the target revision (lines 240 to 259)\<close>

datatype resolve_error =
    No_previous_revisions_available
  | No_previous_revision_found
  | Revision_not_found int "int list"

text \<open>The line each failure writes to the log before \<^verbatim>\<open>rollback_release\<close> returns.\<close>

fun resolve_error_log :: "resolve_error \<Rightarrow> event" where
  "resolve_error_log No_previous_revisions_available =
     Log ERROR ''No previous revisions available for rollback''"
| "resolve_error_log No_previous_revision_found =
     Log ERROR ''No previous revision found''"
| "resolve_error_log (Revision_not_found r valid_revisions) =
     Log ERROR (''Revision '' @ str_int r @ '' not found. Available: ''
                @ str_int_list valid_revisions)"

text \<open>
  \<^verbatim>\<open>sorted(history, key=lambda x: x["revision"], reverse=True)\<close>: descending by revision,
  entries of equal revision in their original order (Python's sort is stable, also with
  \<^verbatim>\<open>reverse=True\<close>).
\<close>

definition sorted_history :: "revision_record list \<Rightarrow> revision_record list" where
  "sorted_history history = sort_key (\<lambda>x. - revision x) history"

definition resolve_target :: "revision_record list \<Rightarrow> int option \<Rightarrow> resolve_error + int" where
  "resolve_target history rev_arg =
     (if length history < 2 \<and> rev_arg = None then Inl No_previous_revisions_available
      else case rev_arg of
             None \<Rightarrow>
               if length (sorted_history history) \<ge> 2
               then Inr (revision (sorted_history history ! 1))
               else Inl No_previous_revision_found
           | Some target_revision \<Rightarrow>
               (let valid_revisions = map revision history
                in if target_revision \<notin> set valid_revisions
                   then Inl (Revision_not_found target_revision valid_revisions)
                   else Inr target_revision))"

subsection \<open>\<^verbatim>\<open>rollback_release\<close>: confirmation and execution (lines 261 to 308)\<close>

definition rollback_command :: "int \<Rightarrow> string \<Rightarrow> string list" where
  "rollback_command target_revision namespace =
     [''helm'', ''rollback'', app_name, str_int target_revision, ''-n'', namespace]"

definition wait_command :: "string \<Rightarrow> string list" where
  "wait_command namespace =
     [''kubectl'', ''rollout'', ''status'', ''deployment/'' @ app_name,
      ''-n'', namespace, ''--timeout=300s'']"

text \<open>Lines 299 to 304: the pods are shown when \<^verbatim>\<open>get_pods\<close> returned a non-empty list.\<close>

definition show_pods :: "pod list option \<Rightarrow> event list" where
  "show_pods pods =
     (case pods of
        None \<Rightarrow> []
      | Some ps \<Rightarrow>
          if ps = [] then []
          else Log INFO ''Current pods:''
               # map (\<lambda>pod. Log INFO (''  '' @ pod_name pod @ '': '' @ pod_phase pod)) ps)"

text \<open>Lines 280 to 308.\<close>

definition perform_rollback :: "world \<Rightarrow> string \<Rightarrow> int \<Rightarrow> string \<Rightarrow> event list \<times> outcome" where
  "perform_rollback w environment target_revision namespace =
     (let (tr1, out1) =
            run_command (rollback_resp w) (rollback_command target_revision namespace) False
      in if out1 \<noteq> None
         then (let (tr2, out2) = run_command (rollout_resp w) (wait_command namespace) False
               in if out2 \<noteq> None
                  then (let (tr3, pods) = get_pods w environment (Some namespace)
                        in ([Log INFO ''Executing rollback...''] @ tr1
                            @ [Log SUCCESS ''Rollback initiated successfully'',
                               Log INFO ''Waiting for deployment to be ready...''] @ tr2
                            @ [Log SUCCESS ''Rollback completed successfully''] @ tr3
                            @ show_pods pods, Returned))
                  else ([Log INFO ''Executing rollback...''] @ tr1
                        @ [Log SUCCESS ''Rollback initiated successfully'',
                           Log INFO ''Waiting for deployment to be ready...''] @ tr2
                        @ [Log WARNING ''Rollback may have failed - check deployment status''],
                        Returned))
         else ([Log INFO ''Executing rollback...''] @ tr1 @ [Log ERROR ''Rollback failed''],
               Returned))"

text \<open>Lines 261 to 267.\<close>

definition describe_target :: "revision_record list \<Rightarrow> int \<Rightarrow> event list" where
  "describe_target history target_revision =
     Log INFO (''Target revision: '' @ str_int target_revision)
     # (case find (\<lambda>h. revision h = target_revision) history of
          None \<Rightarrow> []
        | Some target_history \<Rightarrow>
            [Log INFO (''Rolling back to: '' @ description target_history),
             Log INFO (''Updated: '' @ updated target_history)])"

definition confirm_prompt :: string where
  "confirm_prompt = YELLOW @ ''Proceed with rollback? (y/N): '' @ RESET"

text \<open>
  Lines 261 to 308. \<^verbatim>\<open>input\<close> raises \<^verbatim>\<open>EOFError\<close> at the end of the input; the function
  does not catch it.
\<close>

definition confirm_and_rollback ::
  "world \<Rightarrow> string \<Rightarrow> revision_record list \<Rightarrow> int \<Rightarrow> bool \<Rightarrow> string \<Rightarrow> event list \<times> outcome" where
  "confirm_and_rollback w environment history target_revision confirm namespace =
     (let tr0 = describe_target history target_revision
      in if \<not> confirm
         then (case typed w of
                 Line response \<Rightarrow>
                   if lower response \<noteq> ''y''
                   then (tr0 @ [Input confirm_prompt, Log WARNING ''Rollback cancelled''],
                         Returned)
                   else (let (tr, out) = perform_rollback w environment target_revision namespace
                         in (tr0 @ [Input confirm_prompt] @ tr, out))
               | Keyboard_interrupt \<Rightarrow>
                   (tr0 @ [Input confirm_prompt, Log WARNING ''Operation cancelled''], Returned)
               | Eof \<Rightarrow> (tr0 @ [Input confirm_prompt], Raised EOFError))
         else (let (tr, out) = perform_rollback w environment target_revision namespace
               in (tr0 @ tr, out)))"

subsection \<open>\<^verbatim>\<open>rollback_release\<close> as a whole\<close>

text \<open>Lines 215 to 308: what follows the update of the kubeconfig.\<close>

definition rollback_bound ::
  "world \<Rightarrow> string \<Rightarrow> int option \<Rightarrow> bool \<Rightarrow> string \<Rightarrow> event list \<times> outcome" where
  "rollback_bound w environment rev_arg confirm namespace =
     (let (tr1, releases) = get_helm_releases w environment (Some namespace)
      in case releases of
           None \<Rightarrow> (tr1 @ [Log ERROR ''No Helm releases found''], Returned)
         | Some rs \<Rightarrow>
             if rs = [] then (tr1 @ [Log ERROR ''No Helm releases found''], Returned)
             else
               (case find (\<lambda>r. rel_name r = app_name) rs of
                  None \<Rightarrow>
                    (tr1 @ [Log ERROR (''Helm release '' @ quoted app_name @ '' not found'')],
                     Returned)
                | Some app_release \<Rightarrow>
                    (let tr2 = tr1 @ [Log INFO (''Current revision: ''
                                                @ str_int (rel_revision app_release))];
                         (tr3, history) = get_helm_history w environment (Some namespace)
                     in case history of
                          None \<Rightarrow>
                            (tr2 @ tr3 @ [Log ERROR ''Could not get release history''], Returned)
                        | Some h \<Rightarrow>
                            if h = []
                            then (tr2 @ tr3 @ [Log ERROR ''Could not get release history''],
                                  Returned)
                            else
                              (case resolve_target h rev_arg of
                                 Inl e \<Rightarrow> (tr2 @ tr3 @ [resolve_error_log e], Returned)
                               | Inr target_revision \<Rightarrow>
                                   (let (tr4, out) =
                                          confirm_and_rollback w environment h target_revision
                                            confirm namespace
                                    in (tr2 @ tr3 @ tr4, out))))))"

definition rollback_release ::
  "world \<Rightarrow> string \<Rightarrow> int option \<Rightarrow> bool \<Rightarrow> string option \<Rightarrow> event list \<times> outcome" where
  "rollback_release w environment rev_arg confirm namespace =
     (let (tr0, valid) = validate_environment environment
      in if \<not> valid then (tr0, Returned)
         else
           (let namespace = (case namespace of None \<Rightarrow> environment | Some n \<Rightarrow> n);
                tr1 = [Log INFO (''Initiating rollback for '' @ app_name @ '' in ''
                                 @ environment @ '' environment'')];
                (tr2, bound) = update_kubeconfig w environment
            in if \<not> bound then (tr0 @ tr1 @ tr2, Returned)
               else (let (tr3, out) = rollback_bound w environment rev_arg confirm namespace
                     in (tr0 @ tr1 @ tr2 @ tr3, out))))"

subsection \<open>\<^verbatim>\<open>tail_logs\<close>\<close>

definition pod_line :: "nat \<Rightarrow> pod \<Rightarrow> event" where
  "pod_line i pod =
     Log INFO (''  '' @ str_int (int i) @ '': '' @ pod_name pod @ '' ('' @ pod_phase pod @ '')'')"

definition pod_listing :: "pod list \<Rightarrow> event list" where
  "pod_listing pods = map (\<lambda>(i, pod). pod_line i pod) (enumerate 0 pods)"

definition select_prompt :: "nat \<Rightarrow> string" where
  "select_prompt n = CYAN @ ''Select pod (0-'' @ str_int (int n - 1) @ ''): '' @ RESET"

text \<open>
  Lines 125 to 149, entered when no pod was named: the result is the name of the pod to
  read, or the way \<^verbatim>\<open>tail_logs\<close> ends without one.
\<close>

definition select_pod :: "world \<Rightarrow> string \<Rightarrow> string \<Rightarrow> event list \<times> (outcome + string)" where
  "select_pod w environment namespace =
     (let (tr, pods) = get_pods w environment (Some namespace)
      in case pods of
           None \<Rightarrow> (tr @ [Log ERROR ''No pods found''], Inl Returned)
         | Some ps \<Rightarrow>
             if ps = [] then (tr @ [Log ERROR ''No pods found''], Inl Returned)
             else if length ps = 1
             then (tr @ [Log INFO (''Using pod: '' @ pod_name (ps ! 0))], Inr (pod_name (ps ! 0)))
             else
               (let tr' = tr @ [Log INFO ''Multiple pods found:''] @ pod_listing ps
                          @ [Input (select_prompt (length ps))]
                in case typed w of
                     Line s \<Rightarrow>
                       (case int_of w s of
                          None \<Rightarrow> (tr' @ [Log WARNING ''Operation cancelled''], Inl Returned)
                        | Some choice \<Rightarrow>
                            if 0 \<le> choice \<and> choice < int (length ps)
                            then (tr', Inr (pod_name (ps ! nat choice)))
                            else (tr' @ [Log ERROR ''Invalid selection''], Inl Returned))
                   | Keyboard_interrupt \<Rightarrow>
                       (tr' @ [Log WARNING ''Operation cancelled''], Inl Returned)
                   | Eof \<Rightarrow> (tr', Inl (Raised EOFError))))"

definition logs_command :: "string \<Rightarrow> string \<Rightarrow> int \<Rightarrow> bool \<Rightarrow> string list" where
  "logs_command pod namespace lines follow =
     [''kubectl'', ''logs'', pod, ''-n'', namespace, ''--tail'', str_int lines]
     @ (if follow then [''-f''] else [])"

text \<open>
  Lines 151 to 168. The follow mode calls \<^verbatim>\<open>subprocess.run\<close> itself, without
  \<^verbatim>\<open>check=True\<close>: the exit status is ignored, an interrupt is caught, a missing executable
  is not.
\<close>

definition stream_logs :: "world \<Rightarrow> string \<Rightarrow> string \<Rightarrow> int \<Rightarrow> bool \<Rightarrow> event list \<times> outcome" where
  "stream_logs w pod namespace lines follow =
     (let command = logs_command pod namespace lines follow;
          tr0 = [Log INFO (''Starting log tail for pod '' @ pod @ ''...''),
                 Log INFO ''Press Ctrl+C to stop'']
      in if follow
         then (case follow_resp w of
                 Stream_exited ok \<Rightarrow> (tr0 @ [Exec command ok], Returned)
               | Stream_interrupted \<Rightarrow>
                   (tr0 @ [Exec command False, Log INFO ''Log tailing stopped''], Returned)
               | Stream_not_found \<Rightarrow> (tr0 @ [Exec command False], Raised FileNotFoundError))
         else (let (tr, output) = run_command (logs_resp w) command True
               in (tr0 @ tr @ (case output of
                                 None \<Rightarrow> []
                               | Some text \<Rightarrow> if text = [] then [] else [Print text]),
                   Returned)))"

text \<open>Lines 124 to 168: what follows the update of the kubeconfig.\<close>

definition tail_logs_bound ::
  "world \<Rightarrow> string \<Rightarrow> bool \<Rightarrow> int \<Rightarrow> string option \<Rightarrow> string \<Rightarrow> event list \<times> outcome" where
  "tail_logs_bound w environment follow lines pod_arg namespace =
     (case pod_arg of
        Some pod \<Rightarrow> stream_logs w pod namespace lines follow
      | None \<Rightarrow>
          (let (tr, sel) = select_pod w environment namespace
           in case sel of
                Inl out \<Rightarrow> (tr, out)
              | Inr pod \<Rightarrow>
                  (let (tr', out) = stream_logs w pod namespace lines follow
                   in (tr @ tr', out))))"

definition tail_logs ::
  "world \<Rightarrow> string \<Rightarrow> bool \<Rightarrow> int \<Rightarrow> string option \<Rightarrow> string option \<Rightarrow> event list \<times> outcome" where
  "tail_logs w environment follow lines pod_arg namespace =
     (let (tr0, valid) = validate_environment environment
      in if \<not> valid then (tr0, Returned)
         else
           (let namespace = (case namespace of None \<Rightarrow> environment | Some n \<Rightarrow> n);
                tr1 = [Log INFO (''Tailing logs for '' @ app_name @ '' in ''
                                 @ environment @ '' environment'')];
                (tr2, bound) = update_kubeconfig w environment
            in if \<not> bound then (tr0 @ tr1 @ tr2, Returned)
               else (let (tr3, out) = tail_logs_bound w environment follow lines pod_arg namespace
                     in (tr0 @ tr1 @ tr2 @ tr3, out))))"

subsection \<open>Reading traces\<close>

definition is_rollback :: "string list \<Rightarrow> bool" where
  "is_rollback command = (take 2 command = [''helm'', ''rollback''])"

definition is_logs :: "string list \<Rightarrow> bool" where
  "is_logs command = (take 2 command = [''kubectl'', ''logs''])"

text \<open>The commands a run has started, in order.\<close>

fun executed :: "event list \<Rightarrow> string list list" where
  "executed [] = []"
| "executed (Exec command ok # es) = command # executed es"
| "executed (e # es) = executed es"

text \<open>
  A success report is a line of level \<open>SUCCESS\<close> or the heading of the final pod list.
\<close>

fun success_report :: "event \<Rightarrow> bool" where
  "success_report (Log SUCCESS m) = True"
| "success_report (Log INFO m) = (m = ''Current pods:'')"
| "success_report e = False"

text \<open>
  \<open>unearned_success done tr\<close>: somewhere in \<open>tr\<close> a success report comes before any
  rollback command that ran and exited with status 0 (\<open>done\<close> says whether one had already
  done so when \<open>tr\<close> starts).
\<close>

fun unearned_success :: "bool \<Rightarrow> event list \<Rightarrow> bool" where
  "unearned_success done [] = False"
| "unearned_success done (Exec command ok # es) =
     unearned_success (if ok \<and> is_rollback command then True else done) es"
| "unearned_success done (e # es) =
     (if success_report e \<and> \<not> done then True else unearned_success done es)"

subsection \<open>Sample inputs\<close>

definition entry :: "int \<Rightarrow> string \<Rightarrow> revision_record" where
  "entry n d = \<lparr>revision = n, description = d, updated = ''2024-05-01''\<rparr>"

definition running :: "string \<Rightarrow> pod" where
  "running n = \<lparr>pod_name = n, pod_phase = ''Running''\<rparr>"

text \<open>
  A cluster in which every command succeeds: three pods, the release at revision 3 with
  the history 1, 2, 3, and a user who types \<^verbatim>\<open>y\<close>.
\<close>

definition healthy :: world where
  "healthy =
     \<lparr>kubeconfig_resp = Completed (),
      pods_resp = Completed (Parsed \<lparr>items = Some [running ''a'', running ''b'', running ''c'']\<rparr>),
      releases_resp = Completed (Parsed [\<lparr>rel_name = ''sample-app'', rel_revision = 3\<rparr>]),
      history_resp = Completed (Parsed [entry 1 ''d1'', entry 2 ''d2'', entry 3 ''d3'']),
      rollback_resp = Completed (),
      rollout_resp = Completed (),
      logs_resp = Completed ''started'',
      follow_resp = Stream_interrupted,
      typed = Line ''y'',
      int_of = (\<lambda>s. if s = ''0'' then Some 0 else if s = ''1'' then Some 1
                     else if s = ''2'' then Some 2 else if s = ''7'' then Some 7 else None)\<rparr>"

section \<open>Properties\<close>

subsection \<open>A command that is not captured never reports success\<close>

lemma run_command_no_capture: "snd (run_command r command False) = None"
  by (simp add: run_command_def split: proc_result.splits)

lemma update_kubeconfig_fails: "snd (update_kubeconfig w environment) = False"
  by (cases "kubeconfig_resp w") (simp_all add: update_kubeconfig_def run_command_def Let_def)

text \<open>
  So both operations end right after the attempt to update the kubeconfig, whatever the
  cluster answers.
\<close>

lemma rollback_release_stops:
  "rollback_release w environment rev_arg confirm namespace =
     (if environment \<in> set valid_environments
      then ([Log INFO (''Initiating rollback for '' @ app_name @ '' in ''
                       @ environment @ '' environment'')]
            @ fst (update_kubeconfig w environment), Returned)
      else (fst (validate_environment environment), Returned))"
  using update_kubeconfig_fails [of w environment]
  by (auto simp add: rollback_release_def validate_environment_def Let_def split: prod.splits)

lemma tail_logs_stops:
  "tail_logs w environment follow lines pod_arg namespace =
     (if environment \<in> set valid_environments
      then ([Log INFO (''Tailing logs for '' @ app_name @ '' in ''
                       @ environment @ '' environment'')]
            @ fst (update_kubeconfig w environment), Returned)
      else (fst (validate_environment environment), Returned))"
  using update_kubeconfig_fails [of w environment]
  by (auto simp add: tail_logs_def validate_environment_def Let_def split: prod.splits)

lemma perform_rollback_eq:
  "perform_rollback w environment target_revision namespace =
     ([Log INFO ''Executing rollback...'']
      @ fst (run_command (rollback_resp w) (rollback_command target_revision namespace) False)
      @ [Log ERROR ''Rollback failed''], Returned)"
  using run_command_no_capture [of "rollback_resp w" "rollback_command target_revision namespace"]
  by (auto simp add: perform_rollback_def Let_def split: prod.splits)

subsection \<open>The commands of a run\<close>

lemma executed_append: "executed (xs @ ys) = executed xs @ executed ys"
  by (induction xs rule: executed.induct) auto

lemma executed_run_command: "executed (fst (run_command r command c)) = [command]"
  by (simp add: run_command_def split: proc_result.splits)

lemma executed_perform_rollback:
  "executed (fst (perform_rollback w environment t ns)) = [rollback_command t ns]"
  by (simp add: perform_rollback_eq executed_append executed_run_command)

lemma executed_get_helm_releases:
  "executed (fst (get_helm_releases w environment (Some ns))) =
     [[''helm'', ''list'', ''-n'', ns, ''-o'', ''json'']]"
  by (simp add: get_helm_releases_def run_command_def executed_append Let_def
      split: proc_result.splits json_text.splits)

lemma executed_get_helm_history:
  "executed (fst (get_helm_history w environment (Some ns))) =
     [[''helm'', ''history'', app_name, ''-n'', ns, ''-o'', ''json'']]"
  by (simp add: get_helm_history_def run_command_def executed_append Let_def
      split: proc_result.splits json_text.splits)

lemma executed_describe_target: "executed (describe_target h t) = []"
  by (simp add: describe_target_def split: option.splits)

lemma executed_confirm_and_rollback:
  "executed (fst (confirm_and_rollback w environment h t confirm ns)) =
     (if confirm \<or> (\<exists>s. typed w = Line s \<and> lower s = ''y'')
      then [rollback_command t ns] else [])"
  using executed_perform_rollback [of w environment t ns]
  by (auto simp add: confirm_and_rollback_def executed_append executed_describe_target Let_def
      split: prod.splits answer.splits)

subsection \<open>The sorted history\<close>

lemma length_sorted_history: "length (sorted_history H) = length H"
  by (simp add: sorted_history_def)

lemma set_sorted_history: "set (sorted_history H) = set H"
  by (simp add: sorted_history_def)

lemma sorted_sorted_history: "sorted (map (\<lambda>x. - revision x) (sorted_history H))"
  by (simp add: sorted_history_def)

lemma filter_sorted_history:
  "length (filter P (sorted_history H)) = length (filter P H)"
  by (simp add: sorted_history_def filter_sort)

lemma resolve_none:
  "2 \<le> length H \<Longrightarrow> resolve_target H None = Inr (revision (sorted_history H ! 1))"
  by (simp add: resolve_target_def length_sorted_history)

lemma sorted_history_shape:
  assumes "2 \<le> length H"
  obtains a b rest where "sorted_history H = a # b # rest"
    "revision b \<le> revision a" "\<forall>x\<in>set rest. revision x \<le> revision b"
proof -
  from assms have "2 \<le> length (sorted_history H)" by (simp add: length_sorted_history)
  then obtain a b rest where s: "sorted_history H = a # b # rest"
    by (cases "sorted_history H"; cases "tl (sorted_history H)") auto
  from sorted_sorted_history [of H] s
  have "revision b \<le> revision a" "\<forall>x\<in>set rest. revision x \<le> revision b"
    by auto
  with s that show thesis by blast
qed

lemma Max_sorted_history:
  assumes "sorted_history H = a # b # rest"
    "revision b \<le> revision a" "\<forall>x\<in>set rest. revision x \<le> revision b"
  shows "Max (revision ` set H) = revision a"
proof -
  have "set H = set (a # b # rest)" using assms(1) set_sorted_history [of H] by simp
  then have "revision ` set H = insert (revision a) (revision ` set (b # rest))" by simp
  moreover have "\<forall>y \<in> revision ` set (b # rest). y \<le> revision a" using assms by auto
  ultimately show ?thesis by (auto intro!: Max_eqI)
qed

text \<open>
  Where the highest revision belongs to one entry only, index 1 of the sorted history
  holds the second-highest revision number.
\<close>

lemma second_highest:
  assumes "2 \<le> length H"
    and "length (filter (\<lambda>h. revision h = Max (revision ` set H)) H) = 1"
  shows "revision (sorted_history H ! 1) = Max (revision ` set H - {Max (revision ` set H)})"
proof -
  obtain a b rest where s: "sorted_history H = a # b # rest"
    and ab: "revision b \<le> revision a" and r: "\<forall>x\<in>set rest. revision x \<le> revision b"
    using sorted_history_shape [OF assms(1)] by blast
  have m: "Max (revision ` set H) = revision a" by (rule Max_sorted_history [OF s ab r])
  have "length (filter (\<lambda>h. revision h = revision a) (sorted_history H)) = 1"
    using assms(2) m by (simp add: filter_sorted_history)
  then have ne: "revision b \<noteq> revision a" using s by (auto split: if_splits)
  have "set H = set (a # b # rest)" using s set_sorted_history [of H] by simp
  then have "revision ` set H - {revision a} = revision ` set (b # rest) - {revision a}" by auto
  also have "\<dots> = revision ` set (b # rest)" using ab r ne by fastforce
  finally have "Max (revision ` set H - {revision a}) = Max (revision ` set (b # rest))" by simp
  also have "\<dots> = revision b" using r by (auto intro!: Max_eqI)
  finally show ?thesis using s m by simp
qed

lemma card_ge2_length: "2 \<le> card (f ` set H) \<Longrightarrow> 2 \<le> length H"
proof -
  assume "2 \<le> card (f ` set H)"
  moreover have "card (f ` set H) \<le> card (set H)" by (rule card_image_le) simp
  moreover have "card (set H) \<le> length H" by (rule card_length)
  ultimately show ?thesis by linarith
qed

lemma not_distinct_length: "\<not> distinct (map f H) \<Longrightarrow> 2 \<le> length H"
  by (cases H; cases "tl H") auto

lemma resolve_target_member: "resolve_target H rev_arg = Inr t \<Longrightarrow> t \<in> revision ` set H"
proof (cases rev_arg)
  case None
  assume r: "resolve_target H rev_arg = Inr t"
  with None have l: "2 \<le> length H" by (auto simp: resolve_target_def split: if_splits)
  with r None have "t = revision (sorted_history H ! 1)" by (simp add: resolve_none)
  moreover have "sorted_history H ! 1 \<in> set (sorted_history H)"
    using l by (intro nth_mem) (simp add: length_sorted_history)
  ultimately show ?thesis by (simp add: set_sorted_history)
next
  case (Some r)
  assume "resolve_target H rev_arg = Inr t"
  with Some show ?thesis by (auto simp: resolve_target_def Let_def split: if_splits)
qed

text \<open>The second message, of line 251, is never written.\<close>

lemma second_message_unreachable: "resolve_target H rev_arg \<noteq> Inl No_previous_revision_found"
  by (auto simp: resolve_target_def Let_def length_sorted_history split: option.splits)

subsection \<open>The commands of \<^verbatim>\<open>rollback_release\<close> after the kubeconfig\<close>

lemma get_helm_history_Some:
  "snd (get_helm_history w environment ns) = Some h \<longleftrightarrow> history_resp w = Completed (Parsed h)"
  by (auto simp add: get_helm_history_def run_command_def Let_def
      split: proc_result.splits json_text.splits)

lemma get_helm_releases_Some:
  "snd (get_helm_releases w environment ns) = Some rs \<longleftrightarrow> releases_resp w = Completed (Parsed rs)"
  by (auto simp add: get_helm_releases_def run_command_def Let_def
      split: proc_result.splits json_text.splits)

lemma executed_resolve_error_log: "executed [resolve_error_log e] = []"
  by (cases e) simp_all

lemma executed_confirm_and_rollbackD:
  "confirm_and_rollback w environment h t confirm ns = (tr, out) \<Longrightarrow>
   executed tr = (if confirm \<or> (\<exists>s. typed w = Line s \<and> lower s = ''y'')
                  then [rollback_command t ns] else [])"
  using executed_confirm_and_rollback [of w environment h t confirm ns] by simp

lemma executed_rollback_bound:
  "executed (fst (rollback_bound w environment rev_arg confirm ns)) =
     [''helm'', ''list'', ''-n'', ns, ''-o'', ''json'']
     # (case snd (get_helm_releases w environment (Some ns)) of
          None \<Rightarrow> []
        | Some rs \<Rightarrow>
            (case find (\<lambda>r. rel_name r = app_name) rs of
               None \<Rightarrow> []
             | Some app_release \<Rightarrow>
                 [''helm'', ''history'', app_name, ''-n'', ns, ''-o'', ''json'']
                 # (case snd (get_helm_history w environment (Some ns)) of
                      None \<Rightarrow> []
                    | Some h \<Rightarrow>
                        if h = [] then []
                        else (case resolve_target h rev_arg of
                                Inl e \<Rightarrow> []
                              | Inr t \<Rightarrow>
                                  if confirm \<or> (\<exists>s. typed w = Line s \<and> lower s = ''y'')
                                  then [rollback_command t ns] else []))))"
  using executed_get_helm_releases [of w environment ns]
    executed_get_helm_history [of w environment ns]
  by (auto simp add: rollback_bound_def Let_def executed_append executed_resolve_error_log
      dest!: executed_confirm_and_rollbackD
      split: prod.splits option.splits sum.splits)

subsection \<open>The answer to the confirmation prompt\<close>

lemma char_of_89: "char_of (89::nat) = CHR ''Y''"
  by (simp add: char_of_def bit_Suc_0_iff)

lemma char_of_121: "char_of (121::nat) = CHR ''y''"
  by (simp add: char_of_def bit_Suc_0_iff)

lemma lower_char_y: "lower_char c = CHR ''y'' \<longleftrightarrow> c = CHR ''y'' \<or> c = CHR ''Y''"
proof (cases "65 \<le> (of_char c :: nat) \<and> (of_char c :: nat) \<le> 90")
  case False
  then show ?thesis by (auto simp: lower_char_def Let_def)
next
  case True
  then have l: "lower_char c = char_of ((of_char c :: nat) + 32)"
    by (simp add: lower_char_def Let_def)
  have ny: "c \<noteq> CHR ''y''" using True by auto
  show ?thesis
  proof
    assume "lower_char c = CHR ''y''"
    then have "(of_char (char_of ((of_char c :: nat) + 32)) :: nat) = of_char (CHR ''y'')"
      using l by simp
    then have "(of_char c :: nat) = 89" using True by simp
    then have "char_of (of_char c :: nat) = char_of (89 :: nat)" by simp
    then have "c = CHR ''Y''" by (simp add: char_of_89)
    then show "c = CHR ''y'' \<or> c = CHR ''Y''" by simp
  next
    assume "c = CHR ''y'' \<or> c = CHR ''Y''"
    with ny have "c = CHR ''Y''" by simp
    then show "lower_char c = CHR ''y''" by (simp add: lower_char_def Let_def char_of_121)
  qed
qed

lemma lower_y: "lower s = ''y'' \<longleftrightarrow> s = ''y'' \<or> s = ''Y''"
  by (cases s; cases "tl s") (auto simp: lower_def lower_char_y)

subsection \<open>Success reports\<close>

lemma no_success_unearned: "filter success_report tr = [] \<Longrightarrow> \<not> unearned_success d tr"
  by (induction d tr rule: unearned_success.induct) (auto split: if_splits)

lemma quiet_run_command: "filter success_report (fst (run_command r command c)) = []"
  by (simp add: run_command_def split: proc_result.splits)

lemma quiet_get_helm_releases: "filter success_report (fst (get_helm_releases w environment ns)) = []"
  by (simp add: get_helm_releases_def run_command_def Let_def
      split: proc_result.splits json_text.splits option.splits)

lemma quiet_get_helm_history: "filter success_report (fst (get_helm_history w environment ns)) = []"
  by (simp add: get_helm_history_def run_command_def Let_def
      split: proc_result.splits json_text.splits option.splits)

lemma quiet_describe_target: "filter success_report (describe_target h t) = []"
  by (simp add: describe_target_def split: option.splits)

lemma quiet_perform_rollback: "filter success_report (fst (perform_rollback w environment t ns)) = []"
  by (simp add: perform_rollback_eq quiet_run_command)

lemma quiet_confirm_and_rollback:
  "filter success_report (fst (confirm_and_rollback w environment h t confirm ns)) = []"
  using quiet_perform_rollback [of w environment t ns]
  by (auto simp add: confirm_and_rollback_def quiet_describe_target Let_def
      split: prod.splits answer.splits)

lemma quiet_confirm_and_rollbackD:
  "confirm_and_rollback w environment h t confirm ns = (tr, out) \<Longrightarrow> filter success_report tr = []"
  using quiet_confirm_and_rollback [of w environment h t confirm ns] by simp

lemma quiet_resolve_error_log: "\<not> success_report (resolve_error_log e)"
  by (cases e) simp_all

lemma quiet_rollback_bound:
  "filter success_report (fst (rollback_bound w environment rev_arg confirm ns)) = []"
  using quiet_get_helm_releases [of w environment "Some ns"]
    quiet_get_helm_history [of w environment "Some ns"]
  by (auto simp add: rollback_bound_def Let_def quiet_resolve_error_log
      dest!: quiet_confirm_and_rollbackD
      split: prod.splits option.splits sum.splits)

lemma quiet_update_kubeconfig: "filter success_report (fst (update_kubeconfig w environment)) = []"
  by (simp add: update_kubeconfig_def run_command_def Let_def split: proc_result.splits)

lemma quiet_rollback_release:
  "filter success_report (fst (rollback_release w environment rev_arg confirm namespace)) = []"
  by (simp add: rollback_release_stops quiet_update_kubeconfig validate_environment_def)

lemma executed_update_kubeconfig:
  "filter is_rollback (executed (fst (update_kubeconfig w environment))) = []"
  by (simp add: update_kubeconfig_def run_command_def Let_def is_rollback_def split: proc_result.splits)

lemma executed_rollback_release:
  "filter is_rollback (executed (fst (rollback_release w environment rev_arg confirm namespace))) = []"
  by (simp add: rollback_release_stops executed_update_kubeconfig executed_append validate_environment_def)

lemma rollbacks_of_rollback_bound:
  "filter is_rollback (executed (fst (rollback_bound w environment rev_arg confirm ns))) =
     (case snd (get_helm_releases w environment (Some ns)) of
        None \<Rightarrow> []
      | Some rs \<Rightarrow>
          (case find (\<lambda>r. rel_name r = app_name) rs of
             None \<Rightarrow> []
           | Some app_release \<Rightarrow>
               (case snd (get_helm_history w environment (Some ns)) of
                  None \<Rightarrow> []
                | Some h \<Rightarrow>
                    if h = [] then []
                    else (case resolve_target h rev_arg of
                            Inl e \<Rightarrow> []
                          | Inr t \<Rightarrow>
                              if confirm \<or> (\<exists>s. typed w = Line s \<and> lower s = ''y'')
                              then [rollback_command t ns] else []))))"
  by (simp add: executed_rollback_bound is_rollback_def rollback_command_def
      split: option.splits sum.splits)

text \<open>Lines 280 to 308 never write a warning either.\<close>

lemma perform_rollback_never_warns:
  "Log WARNING m \<notin> set (fst (perform_rollback w environment t ns))"
  by (simp add: perform_rollback_eq run_command_def split: proc_result.splits)

subsection \<open>The commands of \<^verbatim>\<open>tail_logs\<close> after the kubeconfig\<close>

lemma length_pod_listing: "length (pod_listing ps) = length ps"
  by (simp add: pod_listing_def)

lemma nth_pod_listing: "i < length ps \<Longrightarrow> pod_listing ps ! i = pod_line i (ps ! i)"
  by (simp add: pod_listing_def nth_enumerate_eq)

lemma logs_get_pods: "filter is_logs (executed (fst (get_pods w environment namespace))) = []"
  by (simp add: get_pods_def run_command_def Let_def executed_append is_logs_def
      split: proc_result.splits json_text.splits option.splits)

lemma executed_pod_listing: "executed (pod_listing ps) = []"
proof -
  have "executed (map (\<lambda>(i, pod). pod_line i pod) xs) = []" for xs
    by (induction xs) (auto simp: pod_line_def)
  then show ?thesis by (simp add: pod_listing_def)
qed

lemma logs_select_pod: "filter is_logs (executed (fst (select_pod w environment ns))) = []"
  using logs_get_pods [of w environment "Some ns"]
  by (auto simp add: select_pod_def Let_def executed_append executed_pod_listing
      split: prod.splits option.splits answer.splits)

lemma executed_run_commandD: "run_command r command c = (tr, out) \<Longrightarrow> executed tr = [command]"
  using executed_run_command [of r command c] by simp

lemma logs_stream_logs:
  "filter is_logs (executed (fst (stream_logs w pod ns lines follow))) =
     [logs_command pod ns lines follow]"
  by (auto simp add: stream_logs_def Let_def executed_append
      is_logs_def logs_command_def dest!: executed_run_commandD
      split: prod.splits option.splits stream_result.splits)

section \<open>The claims\<close>

text \<open>
  C1, as the code has it. For every history \<open>H\<close> with at least 2 distinct revision numbers
  whose highest revision number belongs to exactly one entry, and no explicit target, the
  revision-resolution step selects the second-highest revision number in \<open>H\<close>, which is the
  revision of the entry at index 1 of \<open>H\<close> sorted by revision descending; it need not be the
  highest revision minus one.
\<close>

theorem previous_revision_selected:
  assumes "2 \<le> card (revision ` set H)"
    and "length (filter (\<lambda>h. revision h = Max (revision ` set H)) H) = 1"
  shows "resolve_target H None = Inr (Max (revision ` set H - {Max (revision ` set H)}))
         \<and> Max (revision ` set H - {Max (revision ` set H)}) = revision (sorted_history H ! 1)"
proof -
  have l: "2 \<le> length H" using assms(1) by (rule card_ge2_length)
  show ?thesis using resolve_none [OF l] second_highest [OF l assms(2)] by simp
qed

text \<open>The history 2, 7, 5: the target is 5, not 7 - 1.\<close>

theorem previous_revision_selected_witness:
  "2 \<le> card (revision ` set [entry 2 ''d2'', entry 7 ''d7'', entry 5 ''d5''])
   \<and> length (filter (\<lambda>h. revision h
                          = Max (revision ` set [entry 2 ''d2'', entry 7 ''d7'', entry 5 ''d5'']))
         [entry 2 ''d2'', entry 7 ''d7'', entry 5 ''d5'']) = 1
   \<and> resolve_target [entry 2 ''d2'', entry 7 ''d7'', entry 5 ''d5''] None = Inr 5"
  using previous_revision_selected [of "[entry 2 ''d2'', entry 7 ''d7'', entry 5 ''d5'']"]
  by (simp add: entry_def sorted_history_def)

text \<open>
  C1 as stated fails where the highest revision occurs twice: the history 3, 3, 2 has two
  distinct revision numbers, its second-highest revision number is 2, and the step
  selects 3.
\<close>

theorem duplicated_highest_revision_selected:
  "2 \<le> card (revision ` set [entry 3 ''x'', entry 3 ''y'', entry 2 ''z''])
   \<and> resolve_target [entry 3 ''x'', entry 3 ''y'', entry 2 ''z''] None = Inr 3
   \<and> Max (revision ` set [entry 3 ''x'', entry 3 ''y'', entry 2 ''z'']
          - {Max (revision ` set [entry 3 ''x'', entry 3 ''y'', entry 2 ''z''])}) = 2"
  by (simp add: entry_def resolve_target_def sorted_history_def)

text \<open>
  C2. For every history \<open>H\<close> and explicit target \<open>r\<close>, the revision-resolution step accepts
  \<open>r\<close> if and only if \<open>r\<close> is one of the revision numbers of \<open>H\<close>; on rejection the error
  carries a list whose elements are exactly the revision numbers of \<open>H\<close>; and the revision
  of the current release plays no part: whatever it is, an accepted \<open>r\<close> is the revision
  the rollback command is run with.
\<close>

theorem explicit_revision_checked_by_membership:
  "(resolve_target H (Some r) = Inr r \<longleftrightarrow> r \<in> revision ` set H)
   \<and> (r \<notin> revision ` set H \<longrightarrow>
        (\<exists>listed. resolve_target H (Some r) = Inl (Revision_not_found r listed)
                  \<and> resolve_error_log (Revision_not_found r listed)
                      = Log ERROR (''Revision '' @ str_int r @ '' not found. Available: ''
                                   @ str_int_list listed)
                  \<and> set listed = revision ` set H))
   \<and> (\<forall>(w::world) environment ns rs current.
        r \<in> revision ` set H
        \<and> releases_resp w = Completed (Parsed rs)
        \<and> find (\<lambda>x. rel_name x = app_name) rs = Some current
        \<and> history_resp w = Completed (Parsed H) \<longrightarrow>
        executed (fst (rollback_bound w environment (Some r) True ns)) =
          [[''helm'', ''list'', ''-n'', ns, ''-o'', ''json''],
           [''helm'', ''history'', app_name, ''-n'', ns, ''-o'', ''json''],
           rollback_command r ns])"
proof (intro conjI allI impI)
  show "resolve_target H (Some r) = Inr r \<longleftrightarrow> r \<in> revision ` set H"
    by (auto simp: resolve_target_def Let_def)
next
  assume "r \<notin> revision ` set H"
  then have "resolve_target H (Some r) = Inl (Revision_not_found r (map revision H))"
    by (auto simp: resolve_target_def Let_def)
  then show "\<exists>listed. resolve_target H (Some r) = Inl (Revision_not_found r listed)
                  \<and> resolve_error_log (Revision_not_found r listed)
                      = Log ERROR (''Revision '' @ str_int r @ '' not found. Available: ''
                                   @ str_int_list listed)
                  \<and> set listed = revision ` set H"
    by simp
next
  fix w :: world and environment ns rs current
  assume a: "r \<in> revision ` set H
        \<and> releases_resp w = Completed (Parsed rs)
        \<and> find (\<lambda>x. rel_name x = app_name) rs = Some current
        \<and> history_resp w = Completed (Parsed H)"
  then have rel: "snd (get_helm_releases w environment (Some ns)) = Some rs"
    and his: "snd (get_helm_history w environment (Some ns)) = Some H"
    by (simp_all add: get_helm_releases_Some get_helm_history_Some)
  from a have ne: "H \<noteq> []" by auto
  from a have res: "resolve_target H (Some r) = Inr r"
    by (auto simp: resolve_target_def Let_def)
  show "executed (fst (rollback_bound w environment (Some r) True ns)) =
          [[''helm'', ''list'', ''-n'', ns, ''-o'', ''json''],
           [''helm'', ''history'', app_name, ''-n'', ns, ''-o'', ''json''],
           rollback_command r ns]"
    using a rel his ne res by (simp add: executed_rollback_bound)
qed

text \<open>
  Revision 5 is refused for the history 1, 2, with that history in the error; revision 3 of
  the history 1, 2, 3 is rolled "back" to while the release is at revision 2.
\<close>

theorem explicit_revision_checked_by_membership_witness:
  "resolve_target [entry 1 ''d1'', entry 2 ''d2''] (Some 5) = Inl (Revision_not_found 5 [1, 2])
   \<and> executed (fst (rollback_bound
        (healthy\<lparr>releases_resp := Completed (Parsed [\<lparr>rel_name = ''sample-app'', rel_revision = 2\<rparr>])\<rparr>)
        ''dev'' (Some 3) True ''dev'')) =
       [[''helm'', ''list'', ''-n'', ''dev'', ''-o'', ''json''],
        [''helm'', ''history'', ''sample-app'', ''-n'', ''dev'', ''-o'', ''json''],
        [''helm'', ''rollback'', ''sample-app'', ''3'', ''-n'', ''dev'']]"
proof -
  have "resolve_target [entry 1 ''d1'', entry 2 ''d2''] (Some 5) = Inl (Revision_not_found 5 [1, 2])"
    using explicit_revision_checked_by_membership [of "[entry 1 ''d1'', entry 2 ''d2'']" 5]
    by (auto simp add: entry_def resolve_target_def)
  moreover have "executed (fst (rollback_bound
        (healthy\<lparr>releases_resp := Completed (Parsed [\<lparr>rel_name = ''sample-app'', rel_revision = 2\<rparr>])\<rparr>)
        ''dev'' (Some 3) True ''dev'')) =
       [[''helm'', ''list'', ''-n'', ''dev'', ''-o'', ''json''],
        [''helm'', ''history'', ''sample-app'', ''-n'', ''dev'', ''-o'', ''json''],
        rollback_command 3 ''dev'']"
    using explicit_revision_checked_by_membership
      [of "[entry 1 ''d1'', entry 2 ''d2'', entry 3 ''d3'']" 3]
    by (simp add: healthy_def entry_def app_name_def)
  moreover have "rollback_command 3 ''dev'' = [''helm'', ''rollback'', ''sample-app'', ''3'', ''-n'', ''dev'']"
    by (simp add: rollback_command_def app_name_def str_int_def digits.simps)
  ultimately show ?thesis by simp
qed

text \<open>
  C3, as the code has it. For every history \<open>H\<close> with fewer than 2 entries (the empty
  history or a single entry) and no explicit target, the revision-resolution step fails
  with the no-prior-revision error rather than selecting a target, and a run that fetched
  \<open>H\<close> runs no rollback command.
\<close>

theorem short_history_has_no_previous_revision:
  assumes "length H < 2"
  shows "resolve_target H None = Inl No_previous_revisions_available
         \<and> (\<forall>(w::world) environment confirm ns.
              history_resp w = Completed (Parsed H) \<longrightarrow>
              filter is_rollback
                (executed (fst (rollback_bound w environment None confirm ns))) = [])"
proof (intro conjI allI impI)
  show r: "resolve_target H None = Inl No_previous_revisions_available"
    using assms by (simp add: resolve_target_def)
  fix w :: world and environment confirm ns
  assume "history_resp w = Completed (Parsed H)"
  then have "snd (get_helm_history w environment (Some ns)) = Some H"
    by (simp add: get_helm_history_Some)
  then show "filter is_rollback
               (executed (fst (rollback_bound w environment None confirm ns))) = []"
    using r by (simp add: executed_rollback_bound is_rollback_def split: option.splits)
qed

theorem short_history_has_no_previous_revision_witness:
  "length [entry 1 ''d1''] < 2
   \<and> resolve_target [entry 1 ''d1''] None = Inl No_previous_revisions_available
   \<and> filter is_rollback (executed (fst (rollback_bound
        (healthy\<lparr>history_resp := Completed (Parsed [entry 1 ''d1''])\<rparr>) ''dev'' None True ''dev''))) = []"
  using short_history_has_no_previous_revision [of "[entry 1 ''d1'']"]
  by simp

text \<open>
  C3 as stated fails for a history of two entries that share revision 1: it has fewer than
  2 distinct revision numbers, and the step selects revision 1.
\<close>

theorem shared_revision_not_rejected:
  "card (revision ` set [entry 1 ''x'', entry 1 ''y'']) < 2
   \<and> resolve_target [entry 1 ''x'', entry 1 ''y''] None = Inr 1"
  by (simp add: entry_def resolve_target_def sorted_history_def)

text \<open>
  C4, as the code has it. For every history \<open>H\<close> in which two entries share a revision
  number, revision resolution with no explicit target does not fail: it selects the
  revision of the entry at index 1 of \<open>H\<close> sorted by revision descending, and where the
  shared revision number is the highest one, that is the shared revision itself.
\<close>

theorem duplicate_revisions_not_detected:
  assumes "\<not> distinct (map revision H)"
  shows "resolve_target H None = Inr (revision (sorted_history H ! 1))
         \<and> (1 < length (filter (\<lambda>h. revision h = Max (revision ` set H)) H)
            \<longrightarrow> resolve_target H None = Inr (Max (revision ` set H)))"
proof -
  have l: "2 \<le> length H" using assms by (rule not_distinct_length)
  obtain a b rest where s: "sorted_history H = a # b # rest"
    and ab: "revision b \<le> revision a" and r: "\<forall>x\<in>set rest. revision x \<le> revision b"
    using sorted_history_shape [OF l] by blast
  have m: "Max (revision ` set H) = revision a" by (rule Max_sorted_history [OF s ab r])
  have "revision b = revision a"
    if "1 < length (filter (\<lambda>h. revision h = Max (revision ` set H)) H)"
  proof (rule ccontr)
    assume ne: "revision b \<noteq> revision a"
    then have "filter (\<lambda>h. revision h = revision a) (b # rest) = []"
      using ab r by (auto simp: filter_empty_conv)
    then have "length (filter (\<lambda>h. revision h = revision a) (sorted_history H)) = 1"
      using s by simp
    with that m show False by (simp add: filter_sorted_history)
  qed
  then show ?thesis using resolve_none [OF l] s m by simp
qed

text \<open>The history 4, 6, 6: the target is 6, the revision the two newest entries share.\<close>

theorem duplicate_revisions_not_detected_witness:
  "\<not> distinct (map revision [entry 4 ''a'', entry 6 ''b'', entry 6 ''c''])
   \<and> 1 < length (filter (\<lambda>h. revision h
                         = Max (revision ` set [entry 4 ''a'', entry 6 ''b'', entry 6 ''c'']))
              [entry 4 ''a'', entry 6 ''b'', entry 6 ''c''])
   \<and> resolve_target [entry 4 ''a'', entry 6 ''b'', entry 6 ''c''] None = Inr 6"
  using duplicate_revisions_not_detected [of "[entry 4 ''a'', entry 6 ''b'', entry 6 ''c'']"]
  by (simp add: entry_def sorted_history_def)

text \<open>
  C4 as stated fails for the history 2, 2: two entries share revision 2, and the step
  returns revision 2 as the target instead of an error.
\<close>

theorem duplicate_revision_picked_silently:
  "\<not> distinct (map revision [entry 2 ''first'', entry 2 ''second''])
   \<and> resolve_target [entry 2 ''first'', entry 2 ''second''] None = Inr 2"
  by (simp add: entry_def resolve_target_def sorted_history_def)

text \<open>
  C5. In every run of \<^verbatim>\<open>rollback_release\<close>, and in every run of its lines 215 to 308, no
  success report is written unless a rollback command has run before it and exited with
  status 0. The property holds for a plain reason: no run writes a success report at all
  (\<open>quiet_rollback_release\<close>, \<open>quiet_rollback_bound\<close>), because \<^verbatim>\<open>run_command\<close> returns
  \<^verbatim>\<open>None\<close> for an uncaptured command that succeeded.
\<close>

theorem success_only_after_rollback:
  "\<not> unearned_success False (fst (rollback_release w environment rev_arg confirm namespace))
   \<and> \<not> unearned_success False (fst (rollback_bound w environment rev_arg confirm ns))"
  by (simp add: no_success_unearned quiet_rollback_release quiet_rollback_bound)

text \<open>
  C6. Where the confirmation is not skipped and the answer to the prompt is an interrupt or
  any line other than \<^verbatim>\<open>y\<close> and \<^verbatim>\<open>Y\<close>, lines 261 to 308 end with a warning right after
  the prompt, and neither the lines 215 to 308 nor \<^verbatim>\<open>rollback_release\<close> as a whole run a
  rollback command.
\<close>

theorem cancelled_before_rollback:
  assumes "\<not> confirm"
    and "typed w = Keyboard_interrupt \<or> (\<exists>s. typed w = Line s \<and> s \<noteq> ''y'' \<and> s \<noteq> ''Y'')"
  shows "(\<exists>m. (m = ''Rollback cancelled'' \<or> m = ''Operation cancelled'')
              \<and> confirm_and_rollback w environment h t confirm ns =
                  (describe_target h t @ [Input confirm_prompt, Log WARNING m], Returned))
         \<and> filter is_rollback (executed (fst (rollback_bound w environment rev_arg confirm ns))) = []
         \<and> filter is_rollback (executed (fst (rollback_release w environment rev_arg confirm namespace))) = []"
proof (intro conjI)
  show "\<exists>m. (m = ''Rollback cancelled'' \<or> m = ''Operation cancelled'')
              \<and> confirm_and_rollback w environment h t confirm ns =
                  (describe_target h t @ [Input confirm_prompt, Log WARNING m], Returned)"
    using assms by (auto simp: confirm_and_rollback_def Let_def lower_y)
  have "(confirm \<or> (\<exists>s. typed w = Line s \<and> lower s = ''y'')) = False"
    using assms by (auto simp: lower_y)
  then show "filter is_rollback (executed (fst (rollback_bound w environment rev_arg confirm ns))) = []"
    by (auto simp add: rollbacks_of_rollback_bound split: option.splits sum.splits)
  show "filter is_rollback (executed (fst (rollback_release w environment rev_arg confirm namespace))) = []"
    by (rule executed_rollback_release)
qed

theorem cancelled_before_rollback_witness:
  "typed (healthy\<lparr>typed := Line ''no''\<rparr>) = Line ''no''
   \<and> confirm_and_rollback (healthy\<lparr>typed := Line ''no''\<rparr>) ''dev''
        [entry 1 ''d1'', entry 2 ''d2'', entry 3 ''d3''] 2 False ''dev'' =
       ([Log INFO ''Target revision: 2'', Log INFO ''Rolling back to: d2'',
         Log INFO ''Updated: 2024-05-01'', Input confirm_prompt,
         Log WARNING ''Rollback cancelled''], Returned)
   \<and> filter is_rollback (executed (fst (rollback_bound (healthy\<lparr>typed := Line ''no''\<rparr>)
        ''dev'' None False ''dev''))) = []
   \<and> typed (healthy\<lparr>typed := Keyboard_interrupt\<rparr>) = Keyboard_interrupt
   \<and> filter is_rollback (executed (fst (rollback_bound (healthy\<lparr>typed := Keyboard_interrupt\<rparr>)
        ''dev'' None False ''dev''))) = []"
proof -
  have d: "describe_target [entry 1 ''d1'', entry 2 ''d2'', entry 3 ''d3''] 2 =
      [Log INFO ''Target revision: 2'', Log INFO ''Rolling back to: d2'',
       Log INFO ''Updated: 2024-05-01'']"
    by (simp add: describe_target_def entry_def str_int_def digits.simps)
  have 1: "typed (healthy\<lparr>typed := Line ''no''\<rparr>) = Line ''no''" by simp
  have 2: "typed (healthy\<lparr>typed := Keyboard_interrupt\<rparr>) = Keyboard_interrupt" by simp
  show ?thesis
    using cancelled_before_rollback [of False "healthy\<lparr>typed := Line ''no''\<rparr>" "''dev''"
        "[entry 1 ''d1'', entry 2 ''d2'', entry 3 ''d3'']" 2 "''dev''" None None]
      cancelled_before_rollback [of False "healthy\<lparr>typed := Keyboard_interrupt\<rparr>" "''dev''"
        "[entry 1 ''d1'', entry 2 ''d2'', entry 3 ''d3'']" 2 "''dev''" None None]
    by (simp add: d confirm_and_rollback_def lower_y)
qed

text \<open>
  C7 fails on the code. With a rollback command that succeeds and a rollout wait that
  fails, lines 280 to 308 report the error \<^verbatim>\<open>Rollback failed\<close> and never start the wait;
  and the run from the entry point ends after the update of the kubeconfig.
\<close>

theorem rollback_success_reported_as_failure:
  "perform_rollback (healthy\<lparr>rollout_resp := Called_process_error ''timed out'' [] []\<rparr>)
     ''dev'' 2 ''dev'' =
     ([Log INFO ''Executing rollback...'',
       Log INFO ''Executing: helm rollback sample-app 2 -n dev'',
       Exec [''helm'', ''rollback'', ''sample-app'', ''2'', ''-n'', ''dev''] True,
       Log ERROR ''Rollback failed''], Returned)
   \<and> rollback_release (healthy\<lparr>rollout_resp := Called_process_error ''timed out'' [] []\<rparr>)
       ''dev'' None True None =
     ([Log INFO ''Initiating rollback for sample-app in dev environment'',
       Log INFO ''Executing: aws eks update-kubeconfig --region us-west-2 --name demo-eks-dev'',
       Exec [''aws'', ''eks'', ''update-kubeconfig'', ''--region'', ''us-west-2'',
             ''--name'', ''demo-eks-dev''] True], Returned)"
  by (simp add: perform_rollback_eq rollback_release_stops run_command_def rollback_command_def
      update_kubeconfig_def validate_environment_def valid_environments_def
      healthy_def app_name_def cluster_prefix_def region_def str_int_def digits.simps Let_def)

text \<open>
  C8. For every answer of the cluster whose parsed body holds an empty list of pods,
  \<^verbatim>\<open>get_pods\<close> returns the empty list and logs no error; it returns \<^verbatim>\<open>None\<close> exactly when
  the command failed or could not be started, or when its output is empty or cannot be
  parsed.
\<close>

theorem empty_pod_list_is_not_a_failure:
  "(\<forall>d. pods_resp w = Completed (Parsed d) \<and> items d = Some [] \<longrightarrow>
        snd (get_pods w environment namespace) = Some []
        \<and> (\<forall>m. Log ERROR m \<notin> set (fst (get_pods w environment namespace))))
   \<and> (snd (get_pods w environment namespace) = None \<longleftrightarrow>
        pods_resp w = Completed Blank \<or> pods_resp w = Completed Garbled
        \<or> pods_resp w = File_not_found
        \<or> (\<exists>e out err. pods_resp w = Called_process_error e out err))"
  by (auto simp add: get_pods_def run_command_def Let_def
      split: proc_result.splits json_text.splits option.splits)

theorem empty_pod_list_is_not_a_failure_witness:
  "get_pods (healthy\<lparr>pods_resp := Completed (Parsed \<lparr>items = Some []\<rparr>)\<rparr>) ''dev'' None =
     ([Log INFO ''Executing: kubectl get pods -n dev -l app.kubernetes.io/name=sample-app -o json'',
       Exec [''kubectl'', ''get'', ''pods'', ''-n'', ''dev'', ''-l'',
             ''app.kubernetes.io/name=sample-app'', ''-o'', ''json''] True], Some [])
   \<and> snd (get_pods (healthy\<lparr>pods_resp := Completed Garbled\<rparr>) ''dev'' None) = None"
  using empty_pod_list_is_not_a_failure [of "healthy\<lparr>pods_resp := Completed (Parsed \<lparr>items = Some []\<rparr>)\<rparr>" "''dev''" None]
    empty_pod_list_is_not_a_failure [of "healthy\<lparr>pods_resp := Completed Garbled\<rparr>" "''dev''" None]
  by (simp add: get_pods_def run_command_def app_name_def Let_def)

text \<open>
  C9. In lines 124 to 168 of \<^verbatim>\<open>tail_logs\<close>, with no pod named: when \<^verbatim>\<open>get_pods\<close> finds no
  pod the operation ends with the error \<^verbatim>\<open>No pods found\<close>; a single pod is selected; with
  more than one pod the list of all of them is shown, the line of index \<open>i\<close> naming the pod
  at position \<open>i\<close>, and an answer that \<^verbatim>\<open>int\<close> reads as an index \<open>i\<close> in range selects the
  pod at position \<open>i\<close>; any other answer ends the operation. Where the operation ends
  without a pod no \<^verbatim>\<open>kubectl logs\<close> command is run, and otherwise exactly one is, for the
  selected pod.
\<close>

theorem pod_selection:
  fixes w :: world
  shows
  "(snd (get_pods w environment (Some ns)) = None
      \<or> snd (get_pods w environment (Some ns)) = Some [] \<longrightarrow>
     (\<exists>tr. select_pod w environment ns = (tr @ [Log ERROR ''No pods found''], Inl Returned)))
   \<and> (\<forall>p. snd (get_pods w environment (Some ns)) = Some [p] \<longrightarrow>
        (\<exists>tr. select_pod w environment ns =
                (tr @ [Log INFO (''Using pod: '' @ pod_name p)], Inr (pod_name p))))
   \<and> (\<forall>ps. snd (get_pods w environment (Some ns)) = Some ps \<and> 1 < length ps \<longrightarrow>
        (\<exists>tr rest. fst (select_pod w environment ns) =
                     tr @ [Log INFO ''Multiple pods found:''] @ pod_listing ps
                     @ [Input (select_prompt (length ps))] @ rest)
        \<and> length (pod_listing ps) = length ps
        \<and> (\<forall>i. i < length ps \<longrightarrow> pod_listing ps ! i = pod_line i (ps ! i))
        \<and> (\<forall>s i. typed w = Line s \<and> int_of w s = Some i \<and> 0 \<le> i \<and> i < int (length ps) \<longrightarrow>
              snd (select_pod w environment ns) = Inr (pod_name (ps ! nat i)))
        \<and> ((\<forall>s i. typed w = Line s \<and> int_of w s = Some i \<longrightarrow> i < 0 \<or> int (length ps) \<le> i) \<longrightarrow>
              (\<exists>out. snd (select_pod w environment ns) = Inl out)))
   \<and> (\<forall>out. snd (select_pod w environment ns) = Inl out \<longrightarrow>
        tail_logs_bound w environment follow lines None ns = (fst (select_pod w environment ns), out)
        \<and> filter is_logs
            (executed (fst (tail_logs_bound w environment follow lines None ns))) = [])
   \<and> (\<forall>pod. snd (select_pod w environment ns) = Inr pod \<longrightarrow>
        filter is_logs (executed (fst (tail_logs_bound w environment follow lines None ns)))
          = [logs_command pod ns lines follow])"
proof (intro conjI allI impI)
  assume "snd (get_pods w environment (Some ns)) = None
      \<or> snd (get_pods w environment (Some ns)) = Some []"
  then show "\<exists>tr. select_pod w environment ns = (tr @ [Log ERROR ''No pods found''], Inl Returned)"
    by (cases "get_pods w environment (Some ns)") (auto simp: select_pod_def)
next
  fix p
  assume "snd (get_pods w environment (Some ns)) = Some [p]"
  then show "\<exists>tr. select_pod w environment ns =
                (tr @ [Log INFO (''Using pod: '' @ pod_name p)], Inr (pod_name p))"
    by (cases "get_pods w environment (Some ns)") (auto simp: select_pod_def)
next
  fix ps
  assume a: "snd (get_pods w environment (Some ns)) = Some ps \<and> 1 < length ps"
  then show "\<exists>tr rest. fst (select_pod w environment ns) =
                     tr @ [Log INFO ''Multiple pods found:''] @ pod_listing ps
                     @ [Input (select_prompt (length ps))] @ rest"
    by (cases "get_pods w environment (Some ns)")
       (auto simp: select_pod_def Let_def split: answer.splits option.splits)
  show "length (pod_listing ps) = length ps" by (rule length_pod_listing)
  show "pod_listing ps ! i = pod_line i (ps ! i)" if "i < length ps" for i
    using that by (rule nth_pod_listing)
  show "snd (select_pod w environment ns) = Inr (pod_name (ps ! nat i))"
    if "typed w = Line s \<and> int_of w s = Some i \<and> 0 \<le> i \<and> i < int (length ps)" for s i
    using a that by (cases "get_pods w environment (Some ns)") (auto simp: select_pod_def Let_def)
  show "\<exists>out. snd (select_pod w environment ns) = Inl out"
    if "\<forall>s i. typed w = Line s \<and> int_of w s = Some i \<longrightarrow> i < 0 \<or> int (length ps) \<le> i"
    using a that
    by (cases "get_pods w environment (Some ns)")
       (auto simp: select_pod_def Let_def split: answer.splits option.splits)
next
  fix out
  assume a: "snd (select_pod w environment ns) = Inl out"
  then show t: "tail_logs_bound w environment follow lines None ns
                = (fst (select_pod w environment ns), out)"
    by (cases "select_pod w environment ns") (auto simp: tail_logs_bound_def)
  show "filter is_logs (executed (fst (tail_logs_bound w environment follow lines None ns))) = []"
    by (simp add: t logs_select_pod)
next
  fix pod
  assume a: "snd (select_pod w environment ns) = Inr pod"
  then have "fst (tail_logs_bound w environment follow lines None ns)
             = fst (select_pod w environment ns) @ fst (stream_logs w pod ns lines follow)"
    by (cases "select_pod w environment ns") (auto simp: tail_logs_bound_def split: prod.splits)
  then show "filter is_logs (executed (fst (tail_logs_bound w environment follow lines None ns)))
          = [logs_command pod ns lines follow]"
    by (simp add: executed_append logs_select_pod logs_stream_logs)
qed

theorem pod_selection_witness:
  "snd (select_pod (healthy\<lparr>typed := Line ''1''\<rparr>) ''dev'' ''dev'') = Inr ''b''
   \<and> filter is_logs (executed (fst (tail_logs_bound (healthy\<lparr>typed := Line ''1''\<rparr>)
        ''dev'' False 100 None ''dev''))) =
       [[''kubectl'', ''logs'', ''b'', ''-n'', ''dev'', ''--tail'', ''100'']]
   \<and> filter is_logs (executed (fst (tail_logs_bound (healthy\<lparr>typed := Line ''7''\<rparr>)
        ''dev'' False 100 None ''dev''))) = []
   \<and> snd (select_pod (healthy\<lparr>pods_resp := Completed (Parsed \<lparr>items = Some [running ''a'']\<rparr>)\<rparr>)
        ''dev'' ''dev'') = Inr ''a''
   \<and> snd (select_pod (healthy\<lparr>pods_resp := Completed (Parsed \<lparr>items = Some []\<rparr>)\<rparr>)
        ''dev'' ''dev'') = Inl Returned"
proof -
  let ?w1 = "healthy\<lparr>typed := Line ''1''\<rparr>"
  let ?w7 = "healthy\<lparr>typed := Line ''7''\<rparr>"
  let ?one = "healthy\<lparr>pods_resp := Completed (Parsed \<lparr>items = Some [running ''a'']\<rparr>)\<rparr>"
  let ?zero = "healthy\<lparr>pods_resp := Completed (Parsed \<lparr>items = Some []\<rparr>)\<rparr>"
  let ?ps = "[running ''a'', running ''b'', running ''c'']"
  have g: "snd (get_pods (healthy\<lparr>typed := t\<rparr>) ''dev'' (Some ''dev'')) = Some ?ps" for t
    by (simp add: get_pods_def run_command_def healthy_def Let_def)
  have g1: "snd (get_pods ?one ''dev'' (Some ''dev'')) = Some [running ''a'']"
    by (simp add: get_pods_def run_command_def healthy_def Let_def)
  have g0: "snd (get_pods ?zero ''dev'' (Some ''dev'')) = Some []"
    by (simp add: get_pods_def run_command_def healthy_def Let_def)
  have i: "int_of healthy ''1'' = Some 1" "int_of healthy ''7'' = Some 7"
    by (simp_all add: healthy_def)
  have sel: "snd (select_pod ?w1 ''dev'' ''dev'') = Inr ''b''"
    using pod_selection [of ?w1 "''dev''" "''dev''" False 100] by (simp add: g i running_def)
  have logs: "filter is_logs (executed (fst (tail_logs_bound ?w1 ''dev'' False 100 None ''dev'')))
              = [logs_command ''b'' ''dev'' 100 False]"
    using pod_selection [of ?w1 "''dev''" "''dev''" False 100] by (simp add: sel)
  have none: "filter is_logs (executed (fst (tail_logs_bound ?w7 ''dev'' False 100 None ''dev''))) = []"
    using pod_selection [of ?w7 "''dev''" "''dev''" False 100] by (auto simp add: g i)
  have "snd (select_pod ?one ''dev'' ''dev'') = Inr (pod_name (running ''a''))"
    using pod_selection [of ?one "''dev''" "''dev''" False 100] by (auto simp add: g1)
  then have one: "snd (select_pod ?one ''dev'' ''dev'') = Inr ''a''"
    by (simp add: running_def)
  have zero: "snd (select_pod ?zero ''dev'' ''dev'') = Inl Returned"
    using pod_selection [of ?zero "''dev''" "''dev''" False 100] by (auto simp add: g0)
  have "logs_command ''b'' ''dev'' 100 False =
          [''kubectl'', ''logs'', ''b'', ''-n'', ''dev'', ''--tail'', ''100'']"
    by (simp add: logs_command_def str_int_def digits.simps)
  with sel logs none one zero show ?thesis by simp
qed

text \<open>
  C10. Whenever lines 215 to 308 of \<^verbatim>\<open>rollback_release\<close>, or \<^verbatim>\<open>rollback_release\<close> as a
  whole, run a rollback command, the revision in it is the target resolved from the
  history fetched in the same run, with or without an explicit revision, and is the
  revision of an entry of that history.
\<close>

theorem rollback_target_in_history:
  "(\<forall>command. command \<in> set (executed (fst (rollback_bound w environment rev_arg confirm ns)))
       \<and> is_rollback command \<longrightarrow>
       (\<exists>H t. history_resp w = Completed (Parsed H) \<and> resolve_target H rev_arg = Inr t
              \<and> t \<in> revision ` set H \<and> command = rollback_command t ns))
   \<and> (\<forall>command.
        command \<in> set (executed (fst (rollback_release w environment rev_arg confirm namespace)))
        \<and> is_rollback command \<longrightarrow>
        (\<exists>H t. history_resp w = Completed (Parsed H) \<and> resolve_target H rev_arg = Inr t
               \<and> t \<in> revision ` set H
               \<and> command = rollback_command t
                    (case namespace of None \<Rightarrow> environment | Some n \<Rightarrow> n)))"
proof (intro conjI allI impI)
  fix command
  assume "command \<in> set (executed (fst (rollback_release w environment rev_arg confirm namespace)))
        \<and> is_rollback command"
  then have "command \<in> set (filter is_rollback
      (executed (fst (rollback_release w environment rev_arg confirm namespace))))" by simp
  then show "\<exists>H t. history_resp w = Completed (Parsed H) \<and> resolve_target H rev_arg = Inr t
               \<and> t \<in> revision ` set H
               \<and> command = rollback_command t
                    (case namespace of None \<Rightarrow> environment | Some n \<Rightarrow> n)"
    by (simp add: executed_rollback_release)
next
  fix command
  assume a: "command \<in> set (executed (fst (rollback_bound w environment rev_arg confirm ns)))
       \<and> is_rollback command"
  then have "command \<in> set (filter is_rollback
      (executed (fst (rollback_bound w environment rev_arg confirm ns))))" by simp
  then have "\<exists>H t. snd (get_helm_history w environment (Some ns)) = Some H
    \<and> resolve_target H rev_arg = Inr t \<and> command = rollback_command t ns"
    unfolding rollbacks_of_rollback_bound
    by (cases "snd (get_helm_releases w environment (Some ns))";
        cases "find (\<lambda>r. rel_name r = app_name) (the (snd (get_helm_releases w environment (Some ns))))";
        cases "snd (get_helm_history w environment (Some ns))";
        cases "resolve_target (the (snd (get_helm_history w environment (Some ns)))) rev_arg")
       (auto split: if_splits)
  then obtain H t where "snd (get_helm_history w environment (Some ns)) = Some H"
    "resolve_target H rev_arg = Inr t" "command = rollback_command t ns"
    by blast
  then show "\<exists>H t. history_resp w = Completed (Parsed H) \<and> resolve_target H rev_arg = Inr t
              \<and> t \<in> revision ` set H \<and> command = rollback_command t ns"
    using resolve_target_member [of H rev_arg t] by (auto simp: get_helm_history_Some)
qed

theorem rollback_target_in_history_witness:
  "rollback_command 2 ''dev''
     \<in> set (executed (fst (rollback_bound healthy ''dev'' None True ''dev'')))
   \<and> is_rollback (rollback_command 2 ''dev'')
   \<and> 2 \<in> revision ` set [entry 1 ''d1'', entry 2 ''d2'', entry 3 ''d3'']
   \<and> rollback_command 1 ''dev''
     \<in> set (executed (fst (rollback_bound healthy ''dev'' (Some 1) True ''dev'')))"
  using rollback_target_in_history [of healthy "''dev''" None True "''dev''" None]
    rollback_target_in_history [of healthy "''dev''" "Some 1" True "''dev''" None]
  by (simp add: executed_rollback_bound get_helm_releases_def get_helm_history_def
      run_command_def healthy_def app_name_def entry_def resolve_target_def sorted_history_def
      is_rollback_def rollback_command_def Let_def)

end
